theory Spec2Isabelle
  imports Complex_Main
begin

section \<open>Text: Python strings as lists of code points\<close>

text \<open>
  A Python \<^verbatim>\<open>str\<close> is a sequence of Unicode code points, and \<^verbatim>\<open>len\<close> counts code
  points. The keyword tables of \<^verbatim>\<open>MessageProcessor\<close> hold letters outside ASCII, so a
  string is modelled as a list of code points (natural numbers), not as a list of bytes.
  \<open>u\<close> turns an ASCII literal into such a list; the accented letters of the tables are
  named below by their code point (the source file is in NFC, one code point each).
\<close>

type_synonym str = "nat list"

definition u :: "string \<Rightarrow> str" where
  "u s = map of_char s"

definition a_acute :: nat where "a_acute = 225"
definition a_tilde :: nat where "a_tilde = 227"
definition c_cedil :: nat where "c_cedil = 231"
definition e_acute :: nat where "e_acute = 233"
definition e_circ :: nat where "e_circ = 234"
definition i_acute :: nat where "i_acute = 237"
definition o_acute :: nat where "o_acute = 243"
definition o_circ :: nat where "o_circ = 244"
definition u_acute :: nat where "u_acute = 250"

text \<open>\<^verbatim>\<open>keyword in message\<close>: the keyword occurs as a contiguous run of the message.\<close>

fun starts_with :: "str \<Rightarrow> str \<Rightarrow> bool" where
  "starts_with [] s = True"
| "starts_with (k # ks) [] = False"
| "starts_with (k # ks) (c # cs) = (k = c \<and> starts_with ks cs)"

fun str_in :: "str \<Rightarrow> str \<Rightarrow> bool" where
  "str_in k [] = (k = [])"
| "str_in k (c # cs) = (starts_with k (c # cs) \<or> str_in k cs)"

text \<open>
  \<^verbatim>\<open>str.isspace\<close>, which is also the class \<^verbatim>\<open>\s\<close> of \<^verbatim>\<open>re\<close> on \<^verbatim>\<open>str\<close> patterns: the
  white space code points of the Unicode database.
\<close>

definition isspace :: "nat \<Rightarrow> bool" where
  "isspace c \<longleftrightarrow>
     (9 \<le> c \<and> c \<le> 13) \<or> (28 \<le> c \<and> c \<le> 32) \<or> c = 133 \<or> c = 160 \<or> c = 5760 \<or>
     (8192 \<le> c \<and> c \<le> 8202) \<or> c = 8232 \<or> c = 8233 \<or> c = 8239 \<or> c = 8287 \<or> c = 12288"

text \<open>\<^verbatim>\<open>str.strip()\<close> removes the white space at both ends.\<close>

definition strip :: "str \<Rightarrow> str" where
  "strip s = rev (dropWhile isspace (rev (dropWhile isspace s)))"

text \<open>
  \<^verbatim>\<open>str.lower()\<close>. On the code points below 256 (Basic Latin and Latin-1 Supplement)
  Python lowers a string one code point at a time: the letters \<open>A\<close> to \<open>Z\<close> and the
  capital letters 192 to 222, the multiplication sign 215 apart, move up by 32, and every
  other code point stays. The model is that map. Above 255 Python's \<^verbatim>\<open>lower\<close> follows
  the Unicode case tables, which are not modelled: the model leaves such a code point
  as it is, so it is Python's \<^verbatim>\<open>lower\<close> only on strings of code points below 256.
\<close>

definition lower_cp :: "nat \<Rightarrow> nat" where
  "lower_cp c =
     (if (65 \<le> c \<and> c \<le> 90) \<or> (192 \<le> c \<and> c \<le> 222 \<and> c \<noteq> 215) then c + 32 else c)"

definition lower :: "str \<Rightarrow> str" where
  "lower s = map lower_cp s"

section \<open>The tables of MessageProcessor\<close>

text \<open>
  The lists and the dictionary that \<^verbatim>\<open>__init__\<close> builds. A Python \<^verbatim>\<open>dict\<close> iterates in
  insertion order, and the loops below depend on that order, so \<^verbatim>\<open>category_mapping\<close>
  is an association list in the order of the source.
\<close>

definition expense_keywords :: "str list" where
  "expense_keywords =
     [u ''gastei'', u ''gasto'', u ''paguei'', u ''comprei'', u ''saiu'', u ''custou'',
      u ''despesa'', u ''d'' @ [e_acute] @ u ''bito'', u ''conta'', u ''fatura'',
      u ''pagamento'']"

definition report_keywords :: "str list" where
  "report_keywords =
     [u ''relat'' @ [o_acute] @ u ''rio'', u ''relatorio'', u ''resumo'', u ''total'',
      u ''quanto gastei'', u ''balan'' @ [c_cedil] @ u ''o'', u ''balanco'', u ''extrato'',
      u ''hist'' @ [o_acute] @ u ''rico'', u ''historico'']"

definition cat_alimentacao :: str where
  "cat_alimentacao = u ''alimenta'' @ [c_cedil, a_tilde] @ u ''o''"

definition cat_transporte :: str where
  "cat_transporte = u ''transporte''"

definition cat_combustivel :: str where
  "cat_combustivel = u ''combust'' @ [i_acute] @ u ''vel''"

definition cat_saude :: str where
  "cat_saude = u ''sa'' @ [u_acute] @ u ''de''"

definition cat_educacao :: str where
  "cat_educacao = u ''educa'' @ [c_cedil, a_tilde] @ u ''o''"

definition cat_lazer :: str where
  "cat_lazer = u ''lazer''"

definition cat_casa :: str where
  "cat_casa = u ''casa''"

definition cat_roupas :: str where
  "cat_roupas = u ''roupas''"

definition cat_outros :: str where
  "cat_outros = u ''outros''"

definition category_mapping :: "(str \<times> str list) list" where
  "category_mapping =
     [(cat_alimentacao,
        [u ''alimenta'' @ [c_cedil, a_tilde] @ u ''o'', u ''alimentacao'', u ''comida'',
         u ''lanche'', u ''almo'' @ [c_cedil] @ u ''o'', u ''almoco'', u ''jantar'',
         u ''caf'' @ [e_acute], u ''cafe'', u ''restaurante'', u ''mercado'',
         u ''supermercado'', u ''padaria'', u ''a'' @ [c_cedil] @ u ''ougue'', u ''acougue'',
         u ''feira'', u ''delivery'']),
      (cat_transporte,
        [u ''transporte'', u ''uber'', u ''taxi'', [o_circ] @ u ''nibus'', u ''onibus'',
         u ''metro'', u ''metr'' @ [o_circ], u ''trem'', u ''passagem'', u ''viagem'',
         u ''combust'' @ [i_acute] @ u ''vel'', u ''combustivel'', u ''gasolina'',
         [a_acute] @ u ''lcool'', u ''alcool'', u ''diesel'', u ''posto'']),
      (cat_combustivel,
        [u ''combust'' @ [i_acute] @ u ''vel'', u ''combustivel'', u ''gasolina'',
         [a_acute] @ u ''lcool'', u ''alcool'', u ''diesel'', u ''posto'', u ''abasteci'',
         u ''abastecer'']),
      (cat_saude,
        [u ''sa'' @ [u_acute] @ u ''de'', u ''saude'', u ''m'' @ [e_acute] @ u ''dico'',
         u ''medico'', u ''hospital'', u ''farm'' @ [a_acute] @ u ''cia'', u ''farmacia'',
         u ''rem'' @ [e_acute] @ u ''dio'', u ''remedio'', u ''consulta'', u ''exame'',
         u ''dentista'', u ''plano de sa'' @ [u_acute] @ u ''de'']),
      (cat_educacao,
        [u ''educa'' @ [c_cedil, a_tilde] @ u ''o'', u ''educacao'', u ''escola'',
         u ''faculdade'', u ''curso'', u ''livro'', u ''material escolar'', u ''mensalidade'',
         u ''matr'' @ [i_acute] @ u ''cula'', u ''matricula'']),
      (cat_lazer,
        [u ''lazer'', u ''cinema'', u ''teatro'', u ''show'', u ''festa'', u ''bar'',
         u ''balada'', u ''entretenimento'', u ''divers'' @ [a_tilde] @ u ''o'',
         u ''diversao'', u ''jogo'', u ''streaming'']),
      (cat_casa,
        [u ''casa'', u ''aluguel'', u ''condom'' @ [i_acute] @ u ''nio'', u ''condominio'',
         u ''luz'', [a_acute] @ u ''gua'', u ''agua'', u ''g'' @ [a_acute] @ u ''s'', u ''gas'',
         u ''internet'', u ''telefone'', u ''limpeza'', u ''m'' @ [o_acute] @ u ''veis'',
         u ''moveis'']),
      (cat_roupas,
        [u ''roupas'', u ''roupa'', u ''cal'' @ [c_cedil] @ u ''a'', u ''calca'', u ''camisa'',
         u ''sapato'', u ''t'' @ [e_circ] @ u ''nis'', u ''tenis'', u ''vestido'', u ''saia'',
         u ''blusa'', u ''casaco'', u ''moda'', u ''shopping'']),
      (cat_outros,
        [u ''outros'', u ''diverso'', u ''v'' @ [a_acute] @ u ''rio'', u ''vario'',
         u ''geral''])]"

text \<open>The placeholder \<^verbatim>\<open>'Gasto nao especificado'\<close> (with the tilde on the a) of \<^verbatim>\<open>_extract_description\<close>.\<close>

definition unspecified :: str where
  "unspecified = u ''Gasto n'' @ [a_tilde] @ u ''o especificado''"

section \<open>The loops over keyword lists\<close>

text \<open>
  \<^verbatim>\<open>for keyword in keywords: if keyword in message: return ...\<close>: the loop returns at the
  first keyword of the list that occurs in the message.
\<close>

fun any_keyword_in :: "str list \<Rightarrow> str \<Rightarrow> bool" where
  "any_keyword_in [] message = False"
| "any_keyword_in (keyword # keywords) message =
     (if str_in keyword message then True else any_keyword_in keywords message)"

section \<open>_calculate_confidence\<close>

text \<open>
  The score is a Python float built from the literals 0.4, 0.3, 0.1 by at most three
  additions. It is modelled by the exact rational sum. (In binary64 each of the twelve
  sums the function can form is the float nearest to the exact decimal sum, so the
  model names the float the code returns.) \<^verbatim>\<open>if category\<close> and \<^verbatim>\<open>if description\<close> are
  Python truth tests: \<^verbatim>\<open>None\<close> and the empty string are false.
\<close>

definition truthy_opt :: "str option \<Rightarrow> bool" where
  "truthy_opt x = (case x of None \<Rightarrow> False | Some s \<Rightarrow> s \<noteq> [])"

definition calculate_confidence :: "rat option \<Rightarrow> str option \<Rightarrow> str \<Rightarrow> rat" where
  "calculate_confidence amount category description =
     (let confidence = 0;
          confidence = (if amount \<noteq> None then confidence + 4 / 10 else confidence);
          confidence = (if truthy_opt category \<and> category \<noteq> Some cat_outros
                        then confidence + 3 / 10
                        else if category = Some cat_outros then confidence + 1 / 10
                        else confidence);
          confidence = (if description \<noteq> [] \<and> description \<noteq> unspecified
                        then confidence + 3 / 10 else confidence)
      in min confidence 1)"

section \<open>validate_message\<close>

text \<open>
  The function returns a pair of a flag and an error text. The two error texts are the
  constructors of \<open>validation_error\<close>: \<open>EmptyInput\<close> is \<^verbatim>\<open>(False, "Mensagem vazia")\<close>,
  \<open>TooLong\<close> is \<^verbatim>\<open>(False, "Mensagem muito longa ...")\<close>, and \<open>Inr ()\<close> is \<^verbatim>\<open>(True, "")\<close>.
\<close>

datatype validation_error = EmptyInput | TooLong

definition validate_message :: "str \<Rightarrow> validation_error + unit" where
  "validate_message message =
     (if message = [] \<or> strip message = [] then Inl EmptyInput
      else if length message > 500 then Inl TooLong
      else Inr ())"

section \<open>_extract_period\<close>

datatype period = Today | Yesterday | Week | Month | Year | All

text \<open>
  The dictionary \<^verbatim>\<open>period_keywords\<close> in insertion order; the constructors stand for the
  strings \<^verbatim>\<open>'today'\<close>, \<^verbatim>\<open>'yesterday'\<close>, \<^verbatim>\<open>'week'\<close>, \<^verbatim>\<open>'month'\<close>, \<^verbatim>\<open>'year'\<close>, \<^verbatim>\<open>'all'\<close>.
\<close>

definition period_keywords :: "(str \<times> period) list" where
  "period_keywords =
     [(u ''hoje'', Today), (u ''ontem'', Yesterday), (u ''semana'', Week),
      (u ''m'' @ [e_circ] @ u ''s'', Month), (u ''mes'', Month), (u ''ano'', Year),
      (u ''total'', All)]"

fun first_period :: "(str \<times> period) list \<Rightarrow> str \<Rightarrow> period option" where
  "first_period [] message = None"
| "first_period ((keyword, p) # rest) message =
     (if str_in keyword message then Some p else first_period rest message)"

definition extract_period :: "str \<Rightarrow> period" where
  "extract_period message =
     (case first_period period_keywords message of Some p \<Rightarrow> p | None \<Rightarrow> Month)"

section \<open>_extract_category\<close>

text \<open>
  The first loop of \<^verbatim>\<open>_extract_category\<close>: categories in the order of the table, and for
  each its keywords in order; the first keyword that occurs in the message returns its
  category.
\<close>

fun category_by_keyword :: "(str \<times> str list) list \<Rightarrow> str \<Rightarrow> str option" where
  "category_by_keyword [] message = None"
| "category_by_keyword ((category, keywords) # rest) message =
     (if any_keyword_in keywords message then Some category
      else category_by_keyword rest message)"

text \<open>
  The second loop runs over the tokens of the spaCy document. spaCy is not part of the
  repository: the tagger is a parameter \<open>nlp\<close> that maps the message to its tokens, of
  which the code reads the part of speech, the stop word flag and the lemma.
\<close>

record token =
  tok_pos :: string
  tok_is_stop :: bool
  tok_lemma :: str

fun category_by_lemma :: "(str \<times> str list) list \<Rightarrow> str \<Rightarrow> str option" where
  "category_by_lemma [] lem = None"
| "category_by_lemma ((category, keywords) # rest) lem =
     (if lem \<in> set keywords then Some category else category_by_lemma rest lem)"

fun category_by_tokens :: "token list \<Rightarrow> str option" where
  "category_by_tokens [] = None"
| "category_by_tokens (t # ts) =
     (if tok_pos t = ''NOUN'' \<and> \<not> tok_is_stop t
      then (case category_by_lemma category_mapping (lower (tok_lemma t)) of
              Some category \<Rightarrow> Some category
            | None \<Rightarrow> category_by_tokens ts)
      else category_by_tokens ts)"

definition extract_category :: "(str \<Rightarrow> token list) \<Rightarrow> str \<Rightarrow> str" where
  "extract_category nlp message =
     (case category_by_keyword category_mapping message of
        Some category \<Rightarrow> category
      | None \<Rightarrow>
          (case category_by_tokens (nlp message) of
             Some category \<Rightarrow> category
           | None \<Rightarrow> cat_outros))"

section \<open>The regular expressions\<close>

text \<open>
  \<^verbatim>\<open>\d\<close> on a \<^verbatim>\<open>str\<close> pattern is the Unicode class Nd, the code points on which
  \<^verbatim>\<open>str.isdecimal\<close> holds: in the Unicode database of Python 3.11 (version 14.0.0), 66 runs
  of the ten digits 0 to 9 in order. \<open>decimal_blocks\<close> lists the first code point of each
  run; the ASCII digits are the run at 48.
\<close>

definition decimal_blocks :: "nat list" where
  "decimal_blocks =
     [48, 1632, 1776, 1984, 2406, 2534, 2662, 2790, 2918, 3046, 3174, 3302, 3430, 3558,
      3664, 3792, 3872, 4160, 4240, 6112, 6160, 6470, 6608, 6784, 6800, 6992, 7088, 7232,
      7248, 42528, 43216, 43264, 43472, 43504, 43600, 44016, 65296, 66720, 68912, 69734,
      69872, 69942, 70096, 70384, 70736, 70864, 71248, 71360, 71472, 71904, 72016, 72784,
      73040, 73120, 92768, 92864, 93008, 120782, 120792, 120802, 120812, 120822, 123200,
      123632, 125264, 130032]"

definition in_block :: "nat \<Rightarrow> nat \<Rightarrow> bool" where
  "in_block c b \<longleftrightarrow> b \<le> c \<and> c < b + 10"

definition isdecimal :: "nat \<Rightarrow> bool" where
  "isdecimal c = list_ex (in_block c) decimal_blocks"

definition digit_value :: "nat \<Rightarrow> nat" where
  "digit_value c = (case find (in_block c) decimal_blocks of Some b \<Rightarrow> c - b | None \<Rightarrow> 0)"

text \<open>
  A literal of a pattern compiled with \<^verbatim>\<open>re.IGNORECASE\<close>: the code points that the literal
  \<open>p\<close> matches, for \<open>p\<close> below 256. These are the code points with the lower case of
  \<open>p\<close>, and the few further ones that \<^verbatim>\<open>re\<close> takes as the same letter (the dotted and
  dotless i, the long s, the Kelvin and Angstrom signs, the Greek mu, the capital sharp s
  and the capital y with diaeresis).
\<close>

definition ci_eq :: "nat \<Rightarrow> nat \<Rightarrow> bool" where
  "ci_eq p c \<longleftrightarrow>
     lower_cp c = lower_cp p \<or>
     (lower_cp p = 105 \<and> (c = 304 \<or> c = 305)) \<or>
     (lower_cp p = 107 \<and> c = 8490) \<or>
     (lower_cp p = 115 \<and> c = 383) \<or>
     (lower_cp p = 181 \<and> (c = 924 \<or> c = 956)) \<or>
     (lower_cp p = 223 \<and> c = 7838) \<or>
     (lower_cp p = 229 \<and> c = 8491) \<or>
     (lower_cp p = 255 \<and> c = 376)"

text \<open>A run of literals, matched at the start of the text: the text after the run.\<close>

fun lit_ci :: "str \<Rightarrow> str \<Rightarrow> str option" where
  "lit_ci [] s = Some s"
| "lit_ci (p # ps) [] = None"
| "lit_ci (p # ps) (c # cs) = (if ci_eq p c then lit_ci ps cs else None)"

text \<open>An optional literal \<^verbatim>\<open>x?\<close> at the end of a pattern: greedy, taken when it is there.\<close>

definition opt_ci :: "nat \<Rightarrow> str \<Rightarrow> str" where
  "opt_ci p s = (case s of [] \<Rightarrow> s | c # cs \<Rightarrow> if ci_eq p c then cs else s)"

text \<open>
  A pattern with one group, tried at one position: from the text that starts at the
  position to the group and the text after the match, or \<open>None\<close> when the pattern does
  not match there.

  \<^verbatim>\<open>\d+\<close> is greedy: it takes the whole run of digits. In the three patterns a shorter
  run cannot lead to a match that the whole run does not give: what follows \<^verbatim>\<open>\d+\<close> is
  either optional and last (pattern 1), or has to go on with white space or a letter,
  which the next digit is not (patterns 2 and 3).
\<close>

type_synonym pattern = "str \<Rightarrow> (str \<times> str) option"

definition digits1 :: pattern where
  "digits1 s =
     (let ds = takeWhile isdecimal s
      in if ds = [] then None else Some (ds, dropWhile isdecimal s))"

text \<open>
  The code points that the patterns name: 36 is the dollar sign, 44 the comma, 46 the
  point, 82 the letter \<open>R\<close>, 114 the letter \<open>r\<close>, 115 the letter \<open>s\<close>, 32 the space and 10 the
  line feed. All patterns are used with \<^verbatim>\<open>re.IGNORECASE\<close>, so their letters are matched
  with \<open>ci_eq\<close>.
\<close>

text \<open>\<^verbatim>\<open>(\d+(?:[.,]\d{2})?)\<close>: a separator and two digits are taken when they follow.\<close>

definition numeral_group :: pattern where
  "numeral_group s =
     (case digits1 s of
        None \<Rightarrow> None
      | Some (ds, r) \<Rightarrow>
          (case r of
             sep # d1 # d2 # r' \<Rightarrow>
               if (sep = 46 \<or> sep = 44) \<and> isdecimal d1 \<and> isdecimal d2
               then Some (ds @ [sep, d1, d2], r')
               else Some (ds, r)
           | _ \<Rightarrow> Some (ds, r)))"

text \<open>
  \<^verbatim>\<open>(?:R\$\s*)?(\d+(?:[.,]\d{2})?)\<close>: the optional group is tried first, with all the
  white space that follows the dollar sign; when the numeral does not follow, the pattern
  is tried without the optional group.
\<close>

definition money_pattern_1 :: pattern where
  "money_pattern_1 s =
     (case s of
        r # d # s' \<Rightarrow>
          if ci_eq 82 r \<and> d = 36
          then (case numeral_group (dropWhile isspace s') of
                  Some m \<Rightarrow> Some m
                | None \<Rightarrow> numeral_group s)
          else numeral_group s
      | _ \<Rightarrow> numeral_group s)"

text \<open>\<^verbatim>\<open>(\d+)\s*reais?\<close>\<close>

definition money_pattern_2 :: pattern where
  "money_pattern_2 s =
     (case digits1 s of
        None \<Rightarrow> None
      | Some (ds, r) \<Rightarrow>
          (case lit_ci (u ''reai'') (dropWhile isspace r) of
             None \<Rightarrow> None
           | Some r' \<Rightarrow> Some (ds, opt_ci 115 r')))"

text \<open>\<^verbatim>\<open>(\d+)\s*(?:pila|pratas?)\<close>: the alternatives in order.\<close>

definition money_pattern_3 :: pattern where
  "money_pattern_3 s =
     (case digits1 s of
        None \<Rightarrow> None
      | Some (ds, r) \<Rightarrow>
          (case lit_ci (u ''pila'') (dropWhile isspace r) of
             Some r' \<Rightarrow> Some (ds, r')
           | None \<Rightarrow>
               (case lit_ci (u ''prata'') (dropWhile isspace r) of
                  None \<Rightarrow> None
                | Some r' \<Rightarrow> Some (ds, opt_ci 115 r'))))"

definition money_patterns :: "pattern list" where
  "money_patterns = [money_pattern_1, money_pattern_2, money_pattern_3]"

text \<open>
  \<^verbatim>\<open>re.findall\<close> with a pattern of one group: the text is scanned from the left; where the
  pattern matches, the group is recorded and the scan goes on after the match; where it
  does not, the scan moves one code point on. A match that consumes nothing moves the
  scan one code point on as well (no pattern of this program matches the empty string).
\<close>

function findall :: "pattern \<Rightarrow> str \<Rightarrow> str list" where
  "findall p [] = (case p [] of Some (g, rest) \<Rightarrow> [g] | None \<Rightarrow> [])"
| "findall p (c # cs) =
     (case p (c # cs) of
        Some (g, rest) \<Rightarrow> g # findall p (if length rest \<le> length cs then rest else cs)
      | None \<Rightarrow> findall p cs)"
  by pat_completeness auto
termination
  by (relation "measure (\<lambda>(p, s). length s)") auto

text \<open>
  A pattern without a group whose match depends on the code point before the position
  (for \<^verbatim>\<open>\b\<close>): from that code point, if any, and the text that starts at the position to
  the text after the match.
\<close>

type_synonym cpattern = "nat option \<Rightarrow> str \<Rightarrow> str option"

definition no_context :: "pattern \<Rightarrow> cpattern" where
  "no_context p prev s = map_option snd (p s)"

text \<open>
  \<^verbatim>\<open>re.sub(pattern, '', text)\<close>: the same scan; the matches are left out and the rest of
  the text is kept. The pattern always sees the original text, so the code point before a
  position is the one of the original text, also when it was part of a match. Only a
  match that consumes a code point removes anything (\<open>consuming\<close>); after any other the
  code point at the position is kept and the scan moves one on.
\<close>

definition consuming :: "str \<Rightarrow> str option \<Rightarrow> str option" where
  "consuming s m =
     (case m of
        None \<Rightarrow> None
      | Some rest \<Rightarrow> if length rest < length s then Some rest else None)"

function re_sub :: "cpattern \<Rightarrow> nat option \<Rightarrow> str \<Rightarrow> str" where
  "re_sub p prev [] = []"
| "re_sub p prev (c # cs) =
     (case consuming (c # cs) (p prev (c # cs)) of
        Some rest \<Rightarrow> re_sub p (Some ((c # cs) ! (length cs - length rest))) rest
      | None \<Rightarrow> c # re_sub p (Some c) cs)"
  by pat_completeness auto
termination
  by (relation "measure (\<lambda>(p, prev, s). length s)")
    (auto simp: consuming_def split: option.splits if_splits)

text \<open>
  \<^verbatim>\<open>\b\<close> holds between two positions when exactly one of them is a word character
  (\<^verbatim>\<open>\w\<close>); the start and the end of the text count as not a word character. On \<^verbatim>\<open>str\<close>
  patterns \<^verbatim>\<open>\w\<close> is the underscore and what \<^verbatim>\<open>str.isalnum\<close> accepts, a table of the
  Unicode database that is not part of the program: it is the parameter \<open>w\<close>.
\<close>

definition is_word :: "(nat \<Rightarrow> bool) \<Rightarrow> nat option \<Rightarrow> bool" where
  "is_word w x = (case x of None \<Rightarrow> False | Some c \<Rightarrow> w c)"

definition word_boundary :: "(nat \<Rightarrow> bool) \<Rightarrow> nat option \<Rightarrow> nat option \<Rightarrow> bool" where
  "word_boundary w left right \<longleftrightarrow> is_word w left \<noteq> is_word w right"

definition first_cp :: "str \<Rightarrow> nat option" where
  "first_cp s = (case s of [] \<Rightarrow> None | c # cs \<Rightarrow> Some c)"

text \<open>\<^verbatim>\<open>\bword\b\<close> with \<^verbatim>\<open>re.IGNORECASE\<close>, for a word of literals (none is empty).\<close>

definition bounded_word :: "(nat \<Rightarrow> bool) \<Rightarrow> str \<Rightarrow> cpattern" where
  "bounded_word w word prev s =
     (if word_boundary w prev (first_cp s)
      then (case lit_ci word s of
              None \<Rightarrow> None
            | Some rest \<Rightarrow>
                if word_boundary w (Some (s ! (length word - 1))) (first_cp rest)
                then Some rest else None)
      else None)"

text \<open>
  The last of the common words is \<^verbatim>\<open>'r$'\<close>, and in \<^verbatim>\<open>\br$\b\<close> the dollar sign is not a
  literal: it is the anchor that holds at the end of the text and before a line feed that
  ends the text. The pattern matches a lone \<open>r\<close> there.
\<close>

definition r_at_end :: "(nat \<Rightarrow> bool) \<Rightarrow> cpattern" where
  "r_at_end w prev s =
     (case s of
        [] \<Rightarrow> None
      | c # rest \<Rightarrow>
          if word_boundary w prev (Some c) \<and> ci_eq 114 c \<and> (rest = [] \<or> rest = [10])
             \<and> word_boundary w (Some c) (first_cp rest)
          then Some rest else None)"

section \<open>_extract_amount\<close>

text \<open>
  \<^verbatim>\<open>amount_str.replace(',', '.')\<close> and \<^verbatim>\<open>float(amount_str)\<close>. The value is modelled by the
  exact rational that the numeral denotes; Python rounds it to the nearest binary64
  float. \<open>py_float\<close> is \<^verbatim>\<open>float\<close> on the unsigned decimal numerals, digits with an
  optional point and more digits; \<^verbatim>\<open>float\<close> accepts other texts as well (signs, exponents,
  \<^verbatim>\<open>inf\<close>), which no group of the three patterns can be, and on those the model's \<open>None\<close>
  says nothing about Python. \<open>None\<close> is the \<^verbatim>\<open>ValueError\<close> that the code catches.
\<close>

definition replace_comma :: "str \<Rightarrow> str" where
  "replace_comma s = map (\<lambda>c. if c = 44 then 46 else c) s"

definition digits_value :: "str \<Rightarrow> nat" where
  "digits_value ds = foldl (\<lambda>a c. 10 * a + digit_value c) 0 ds"

definition py_float :: "str \<Rightarrow> rat option" where
  "py_float s =
     (let ip = takeWhile isdecimal s
      in if ip = [] then None
         else (case dropWhile isdecimal s of
                 [] \<Rightarrow> Some (of_nat (digits_value ip))
               | c # fs \<Rightarrow>
                   if c = 46 \<and> fs \<noteq> [] \<and> list_all isdecimal fs
                   then Some (of_nat (digits_value ip) + of_nat (digits_value fs) / 10 ^ length fs)
                   else None))"

text \<open>
  The loop over the patterns: the first group that \<^verbatim>\<open>findall\<close> returns is parsed; a
  pattern without a match, or whose group does not parse, passes on to the next.
\<close>

fun extract_amount_from :: "pattern list \<Rightarrow> str \<Rightarrow> rat option" where
  "extract_amount_from [] message = None"
| "extract_amount_from (p # ps) message =
     (case findall p message of
        [] \<Rightarrow> extract_amount_from ps message
      | amount_str # _ \<Rightarrow>
          (case py_float (replace_comma amount_str) of
             Some amount \<Rightarrow> Some amount
           | None \<Rightarrow> extract_amount_from ps message))"

definition extract_amount :: "str \<Rightarrow> rat option" where
  "extract_amount message = extract_amount_from money_patterns message"

section \<open>_identify_message_type\<close>

text \<open>
  The constructors stand for the strings \<^verbatim>\<open>'expense'\<close>, \<^verbatim>\<open>'report'\<close> and \<^verbatim>\<open>'unknown'\<close>.
  \<^verbatim>\<open>if self._extract_amount(message)\<close> is a Python truth test of an optional float:
  \<^verbatim>\<open>None\<close> is false, and so is the float zero.
\<close>

datatype message_type = Expense | Report | Unknown

definition truthy_amount :: "rat option \<Rightarrow> bool" where
  "truthy_amount a = (case a of None \<Rightarrow> False | Some x \<Rightarrow> x \<noteq> 0)"

definition identify_message_type :: "str \<Rightarrow> message_type" where
  "identify_message_type message =
     (if any_keyword_in report_keywords message then Report
      else if any_keyword_in expense_keywords message then Expense
      else if truthy_amount (extract_amount message) then Expense
      else Unknown)"

section \<open>_extract_description\<close>

text \<open>
  \<^verbatim>\<open>description.split()\<close> cuts the text at the runs of white space and drops empty words;
  \<^verbatim>\<open>' '.join\<close> puts one space between the words.
\<close>

fun split_from :: "str \<Rightarrow> str \<Rightarrow> str list" where
  "split_from cur [] = (if cur = [] then [] else [cur])"
| "split_from cur (c # cs) =
     (if isspace c
      then (if cur = [] then split_from [] cs else cur # split_from [] cs)
      else split_from (cur @ [c]) cs)"

definition split_ws :: "str \<Rightarrow> str list" where
  "split_ws s = split_from [] s"

fun join :: "str \<Rightarrow> str list \<Rightarrow> str" where
  "join sep [] = []"
| "join sep [x] = x"
| "join sep (x # y # ys) = x @ sep @ join sep (y # ys)"

text \<open>The three loops of substitutions, each pattern applied to the result of the last.\<close>

fun sub_words :: "(nat \<Rightarrow> bool) \<Rightarrow> str list \<Rightarrow> str \<Rightarrow> str" where
  "sub_words w [] description = description"
| "sub_words w (keyword # keywords) description =
     sub_words w keywords (re_sub (bounded_word w keyword) None description)"

fun sub_patterns :: "pattern list \<Rightarrow> str \<Rightarrow> str" where
  "sub_patterns [] description = description"
| "sub_patterns (p # ps) description =
     sub_patterns ps (re_sub (no_context p) None description)"

text \<open>
  The common words \<^verbatim>\<open>'em', 'de', 'com', 'para', 'no', 'na', 'do', 'da'\<close>; the ninth,
  \<^verbatim>\<open>'r$'\<close>, is the pattern \<open>r_at_end\<close>.
\<close>

definition common_words :: "str list" where
  "common_words =
     [u ''em'', u ''de'', u ''com'', u ''para'', u ''no'', u ''na'', u ''do'', u ''da'']"

definition cleaned :: "(nat \<Rightarrow> bool) \<Rightarrow> str \<Rightarrow> str" where
  "cleaned w message =
     (let description = message;
          description = sub_words w expense_keywords description;
          description = sub_patterns money_patterns description;
          description = sub_words w common_words description;
          description = re_sub (r_at_end w) None description
      in join [32] (split_ws description))"

definition extract_description :: "(nat \<Rightarrow> bool) \<Rightarrow> str \<Rightarrow> str" where
  "extract_description w message =
     (let description = strip (cleaned w message)
      in if description = [] then unspecified else description)"

section \<open>process_message\<close>

text \<open>
  The dictionary that \<^verbatim>\<open>process_message\<close> returns, as a record; a key that the
  dictionary does not hold is \<open>None\<close>, and the field \<open>res_type\<close> is the key \<^verbatim>\<open>'type'\<close>. The value under \<^verbatim>\<open>'amount'\<close> is itself optional.
  The collaborators that are not part of the program are parameters: the tagger \<open>nlp\<close>,
  the word characters \<open>w\<close> of \<^verbatim>\<open>re\<close>, and the reading \<open>now\<close> of the clock.
\<close>

record processed =
  res_type :: message_type
  res_original_message :: str
  res_timestamp :: string
  res_amount :: "rat option option"
  res_category :: "str option"
  res_description :: "str option"
  res_confidence :: "rat option"
  res_period :: "period option"

definition extract_expense_data ::
  "(str \<Rightarrow> token list) \<Rightarrow> (nat \<Rightarrow> bool) \<Rightarrow> str \<Rightarrow> processed \<Rightarrow> processed" where
  "extract_expense_data nlp w message result =
     (let a = extract_amount message;
          c = extract_category nlp message;
          d = extract_description w message
      in result\<lparr>res_amount := Some a, res_category := Some c, res_description := Some d,
                 res_confidence := Some (calculate_confidence a (Some c) d)\<rparr>)"

definition extract_report_data ::
  "(str \<Rightarrow> token list) \<Rightarrow> str \<Rightarrow> processed \<Rightarrow> processed" where
  "extract_report_data nlp message result =
     (let c = extract_category nlp message;
          p = extract_period message
      in result\<lparr>res_category := Some c, res_period := Some p\<rparr>)"

definition process_message ::
  "(str \<Rightarrow> token list) \<Rightarrow> (nat \<Rightarrow> bool) \<Rightarrow> string \<Rightarrow> str \<Rightarrow> processed" where
  "process_message nlp w now message0 =
     (let message = strip (lower message0);
          message_type = identify_message_type message;
          result = \<lparr>res_type = message_type, res_original_message = message, res_timestamp = now,
                     res_amount = None, res_category = None, res_description = None, res_confidence = None,
                     res_period = None\<rparr>
      in if message_type = Expense then extract_expense_data nlp w message result
         else if message_type = Report then extract_report_data nlp message result
         else result)"

text \<open>A tagger that finds no token: the program without the spaCy fallback.\<close>

definition no_tagger :: "str \<Rightarrow> token list" where
  "no_tagger message = []"

section \<open>Amount extraction as the specification words it\<close>

text \<open>
  The group of the match at the earliest position of the text, for one pattern: the
  positions are tried from the left, and the first one where the pattern matches gives
  the group.
\<close>

fun leftmost :: "pattern \<Rightarrow> str \<Rightarrow> str option" where
  "leftmost p [] = (case p [] of Some (g, rest) \<Rightarrow> Some g | None \<Rightarrow> None)"
| "leftmost p (c # cs) =
     (case p (c # cs) of Some (g, rest) \<Rightarrow> Some g | None \<Rightarrow> leftmost p cs)"

text \<open>
  The amount of the specification: the first of the three pattern families that has a
  match in the text wins; the group of its earliest match is parsed, after the comma is
  replaced by a point.
\<close>

definition amount_spec :: "str \<Rightarrow> rat option" where
  "amount_spec message =
     (case find (\<lambda>p. leftmost p message \<noteq> None) money_patterns of
        None \<Rightarrow> None
      | Some p \<Rightarrow>
          (case leftmost p message of
             None \<Rightarrow> None
           | Some g \<Rightarrow> py_float (replace_comma g)))"

section \<open>Category extraction as the specification words it\<close>

text \<open>
  \<^verbatim>\<open>category_mapping[category]\<close>, the triggers of a category, and the entries of the table
  that are declared before a category.
\<close>

definition triggers :: "str \<Rightarrow> str list" where
  "triggers category =
     (case map_of category_mapping category of Some keywords \<Rightarrow> keywords | None \<Rightarrow> [])"

definition declared_before :: "str \<Rightarrow> (str \<times> str list) list" where
  "declared_before category = takeWhile (\<lambda>(c, keywords). c \<noteq> category) category_mapping"

definition no_trigger_in :: "(str \<times> str list) list \<Rightarrow> str \<Rightarrow> bool" where
  "no_trigger_in entries message =
     list_all (\<lambda>(c, keywords). list_all (\<lambda>k. \<not> str_in k message) keywords) entries"

text \<open>
  The word characters \<^verbatim>\<open>\w\<close> of \<^verbatim>\<open>re\<close> among the code points below 256, for the
  examples: a parameter \<open>w\<close> that is Python's \<^verbatim>\<open>\w\<close> on texts of such code points.
\<close>

definition latin1_word :: "nat \<Rightarrow> bool" where
  "latin1_word c \<longleftrightarrow>
     (48 \<le> c \<and> c \<le> 57) \<or> (65 \<le> c \<and> c \<le> 90) \<or> c = 95 \<or> (97 \<le> c \<and> c \<le> 122) \<or>
     c = 170 \<or> c = 178 \<or> c = 179 \<or> c = 181 \<or> c = 185 \<or> c = 186 \<or>
     (188 \<le> c \<and> c \<le> 190) \<or> (192 \<le> c \<and> c \<le> 214) \<or> (216 \<le> c \<and> c \<le> 246) \<or>
     (248 \<le> c \<and> c \<le> 255)"

text \<open>
  The messages of the examples: \<^verbatim>\<open>comprei roupas por r$ 85,50\<close> (already normalized),
  \<^verbatim>\<open>Combustivel 120\<close> with the acute accent on the second i, \<^verbatim>\<open>Relatorio alimentacao\<close>
  with the acute accent on the first o, the cedilla and the tilde, and
  \<^verbatim>\<open>Balanco da semana\<close> with the cedilla.
\<close>

definition msg_roupas :: str where
  "msg_roupas = u ''comprei roupas por r$ 85,50''"

definition msg_combustivel :: str where
  "msg_combustivel = u ''Combust'' @ [i_acute] @ u ''vel 120''"

definition msg_relatorio :: str where
  "msg_relatorio = u ''Relat'' @ [o_acute] @ u ''rio alimenta'' @ [c_cedil, a_tilde] @ u ''o''"

definition msg_balanco :: str where
  "msg_balanco = u ''Balan'' @ [c_cedil] @ u ''o da semana''"

section \<open>The confidence score as the specification words it\<close>

text \<open>
  The score of the specification: 0.4 for a present amount, 0.3 for a present category
  other than the sentinel or 0.1 for the sentinel, 0.3 for a present description other
  than the placeholder, and the sum clamped to the interval from 0 to 1. A category or a
  description is present when Python takes it for true: neither \<^verbatim>\<open>None\<close> nor empty.
\<close>

definition score_spec :: "rat option \<Rightarrow> str option \<Rightarrow> str \<Rightarrow> rat" where
  "score_spec amount category description =
     max 0 (min 1
       ((if amount \<noteq> None then 4 / 10 else 0) +
        (if truthy_opt category \<and> category \<noteq> Some cat_outros then 3 / 10
         else if category = Some cat_outros then 1 / 10 else 0) +
        (if description \<noteq> [] \<and> description \<noteq> unspecified then 3 / 10 else 0)))"

section \<open>Lemmas on the patterns and on amount extraction\<close>

lemma isdecimal_small: "c < 1632 \<Longrightarrow> isdecimal c \<longleftrightarrow> 48 \<le> c \<and> c \<le> 57"
  by (auto simp add: isdecimal_def decimal_blocks_def in_block_def)

lemma digit_value_small:
  "c < 1632 \<Longrightarrow> digit_value c = (if 48 \<le> c \<and> c \<le> 57 then c - 48 else 0)"
  by (auto simp add: digit_value_def decimal_blocks_def in_block_def)

lemma findall_leftmost:
  "(case findall p m of [] \<Rightarrow> None | g # gs \<Rightarrow> Some g) = leftmost p m"
  by (induction m) (auto split: option.splits)

lemma leftmost_suffix:
  "leftmost p m = Some g \<Longrightarrow>
     \<exists>i r. i \<le> length m \<and> p (drop i m) = Some (g, r) \<and> (\<forall>j < i. p (drop j m) = None)"
proof (induction m)
  case Nil
  then obtain r where "p [] = Some (g, r)" by (auto split: option.splits)
  then show ?case by simp
next
  case (Cons c cs)
  show ?case
  proof (cases "p (c # cs)")
    case None
    with Cons.prems have "leftmost p cs = Some g" by simp
    with Cons.IH obtain i r where
      h: "i \<le> length cs" "p (drop i cs) = Some (g, r)" "\<forall>j < i. p (drop j cs) = None"
      by blast
    have "\<forall>j < Suc i. p (drop j (c # cs)) = None"
    proof (intro allI impI)
      fix j assume "j < Suc i"
      then show "p (drop j (c # cs)) = None"
        using None h(3) by (cases j) auto
    qed
    moreover have "Suc i \<le> length (c # cs)" using h(1) by simp
    moreover have "p (drop (Suc i) (c # cs)) = Some (g, r)" using h(2) by simp
    ultimately show ?thesis by (intro exI [of _ "Suc i"] exI [of _ r] conjI)
  next
    case (Some a)
    with Cons.prems obtain r where "p (c # cs) = Some (g, r)" by (cases a) auto
    then have "0 \<le> length (c # cs) \<and> p (drop 0 (c # cs)) = Some (g, r) \<and>
        (\<forall>j < (0::nat). p (drop j (c # cs)) = None)" by simp
    then show ?thesis by (intro exI [of _ 0] exI [of _ r])
  qed
qed

lemma digits1_Some:
  assumes "digits1 s = Some (ds, r)"
  shows "ds \<noteq> [] \<and> list_all isdecimal ds \<and> s = ds @ r"
proof -
  from assms have ds: "ds = takeWhile isdecimal s" and r: "r = dropWhile isdecimal s"
    and ne: "ds \<noteq> []"
    by (auto simp: digits1_def Let_def split: if_splits)
  have "list_all isdecimal ds" unfolding ds list_all_iff by (auto dest: set_takeWhileD)
  with ds r ne show ?thesis by simp
qed

lemma digits1_decimal_head: "isdecimal c \<Longrightarrow> digits1 (c # cs) \<noteq> None"
  by (simp add: digits1_def Let_def)

lemma digits1_None: "\<not> list_ex isdecimal s \<Longrightarrow> digits1 s = None"
  by (cases s) (auto simp: digits1_def Let_def list_ex_iff)

lemma not_decimal_sep: "\<not> isdecimal 44" "\<not> isdecimal 46"
  by (simp_all add: isdecimal_small)

lemma replace_comma_digits: "list_all isdecimal ds \<Longrightarrow> replace_comma ds = ds"
  using not_decimal_sep(1) by (induction ds) (auto simp: replace_comma_def)

lemma py_float_digits:
  assumes "ds \<noteq> []" "list_all isdecimal ds"
  shows "py_float (replace_comma ds) = Some (of_nat (digits_value ds))"
proof -
  from assms(2) have tw: "takeWhile isdecimal ds = ds" and dw: "dropWhile isdecimal ds = []"
    by (simp_all add: list_all_iff)
  from assms show ?thesis by (simp add: py_float_def replace_comma_digits Let_def tw dw)
qed

lemma py_float_fraction:
  assumes "ds \<noteq> []" "list_all isdecimal ds" "sep = 46 \<or> sep = 44" "isdecimal d1" "isdecimal d2"
  shows "py_float (replace_comma (ds @ [sep, d1, d2])) =
           Some (of_nat (digits_value ds) + of_nat (digits_value [d1, d2]) / 100)"
proof -
  have d: "d1 \<noteq> 44" "d2 \<noteq> 44" using assms(4,5) not_decimal_sep(1) by auto
  have rc: "replace_comma (ds @ [sep, d1, d2]) = ds @ [46, d1, d2]"
    using assms(2,3) d replace_comma_digits [of ds] by (auto simp: replace_comma_def)
  have tw: "takeWhile isdecimal (ds @ [46, d1, d2]) = ds"
    using assms(2) not_decimal_sep(2) by (simp add: takeWhile_append2 list_all_iff)
  have dw: "dropWhile isdecimal (ds @ [46, d1, d2]) = [46, d1, d2]"
    using assms(2) not_decimal_sep(2) by (simp add: dropWhile_append2 list_all_iff)
  show ?thesis using assms(1,4,5) by (simp add: py_float_def rc tw dw Let_def)
qed

lemma numeral_group_Some:
  assumes "numeral_group s = Some (g, r)"
  shows "\<exists>ds. ds \<noteq> [] \<and> list_all isdecimal ds \<and> (\<exists>t. s = ds @ t) \<and>
           (g = ds \<or> (\<exists>sep d1 d2. (sep = 46 \<or> sep = 44) \<and> isdecimal d1 \<and> isdecimal d2 \<and>
                          g = ds @ [sep, d1, d2]))"
proof -
  from assms obtain ds r0 where d: "digits1 s = Some (ds, r0)"
    by (auto simp: numeral_group_def split: option.splits)
  note ds = digits1_Some [OF d]
  from assms d have "g = ds \<or> (\<exists>sep d1 d2. (sep = 46 \<or> sep = 44) \<and> isdecimal d1 \<and> isdecimal d2 \<and>
                          g = ds @ [sep, d1, d2])"
    by (auto simp: numeral_group_def split: list.splits if_splits)
  with ds show ?thesis by blast
qed

lemma numeral_group_parses:
  "numeral_group s = Some (g, r) \<Longrightarrow> py_float (replace_comma g) \<noteq> None"
  using numeral_group_Some [of s g r] py_float_digits py_float_fraction by fastforce

lemma numeral_group_decimal_head: "isdecimal c \<Longrightarrow> numeral_group (c # cs) \<noteq> None"
  using digits1_decimal_head [of c cs]
  by (auto simp: numeral_group_def split: option.splits list.splits)

lemma numeral_group_None: "\<not> list_ex isdecimal s \<Longrightarrow> numeral_group s = None"
  by (simp add: numeral_group_def digits1_None)

lemma money_pattern_1_cases:
  "money_pattern_1 s = Some m \<Longrightarrow>
     numeral_group s = Some m \<or> (\<exists>r d s'. s = r # d # s' \<and> numeral_group (dropWhile isspace s') = Some m)"
  by (auto simp: money_pattern_1_def split: list.splits if_splits option.splits)

lemma money_pattern_1_parses:
  "money_pattern_1 s = Some (g, r) \<Longrightarrow> py_float (replace_comma g) \<noteq> None"
  using money_pattern_1_cases [of s "(g, r)"] numeral_group_parses by blast

lemma money_pattern_1_decimal_head: "isdecimal c \<Longrightarrow> money_pattern_1 (c # cs) \<noteq> None"
  using numeral_group_decimal_head [of c cs]
  by (auto simp: money_pattern_1_def split: list.splits option.splits)

lemma list_ex_dropWhile: "list_ex P (dropWhile Q xs) \<Longrightarrow> list_ex P xs"
  by (auto simp: list_ex_iff dest: set_dropWhileD)

lemma money_pattern_1_None:
  assumes "\<not> list_ex isdecimal s" shows "money_pattern_1 s = None"
proof (rule ccontr)
  assume "money_pattern_1 s \<noteq> None"
  then obtain m where "money_pattern_1 s = Some m" by auto
  from money_pattern_1_cases [OF this] show False
  proof
    assume "numeral_group s = Some m"
    with assms show False by (simp add: numeral_group_None)
  next
    assume "\<exists>r d s'. s = r # d # s' \<and> numeral_group (dropWhile isspace s') = Some m"
    then obtain r d s' where s: "s = r # d # s'"
      and n: "numeral_group (dropWhile isspace s') = Some m" by blast
    from assms s have "\<not> list_ex isdecimal (dropWhile isspace s')"
      using list_ex_dropWhile [of isdecimal isspace s'] by auto
    with n show False by (simp add: numeral_group_None)
  qed
qed

lemma money_pattern_2_digits:
  "money_pattern_2 s = Some (g, r) \<Longrightarrow> g \<noteq> [] \<and> list_all isdecimal g"
  by (auto simp: money_pattern_2_def split: option.splits dest: digits1_Some)

lemma money_pattern_3_digits:
  "money_pattern_3 s = Some (g, r) \<Longrightarrow> g \<noteq> [] \<and> list_all isdecimal g"
  by (auto simp: money_pattern_3_def split: option.splits dest: digits1_Some)

lemma money_pattern_2_None: "\<not> list_ex isdecimal s \<Longrightarrow> money_pattern_2 s = None"
  by (simp add: money_pattern_2_def digits1_None)

lemma money_pattern_3_None: "\<not> list_ex isdecimal s \<Longrightarrow> money_pattern_3 s = None"
  by (simp add: money_pattern_3_def digits1_None)

lemma money_patterns_parse:
  assumes "p \<in> set money_patterns" "p s = Some (g, r)"
  shows "py_float (replace_comma g) \<noteq> None"
proof -
  from assms(1) consider "p = money_pattern_1" | "p = money_pattern_2" | "p = money_pattern_3"
    by (auto simp: money_patterns_def)
  then show ?thesis
  proof cases
    case 1
    with assms(2) show ?thesis by (simp add: money_pattern_1_parses)
  next
    case 2
    with assms(2) money_pattern_2_digits [of s g r] show ?thesis by (simp add: py_float_digits)
  next
    case 3
    with assms(2) money_pattern_3_digits [of s g r] show ?thesis by (simp add: py_float_digits)
  qed
qed

lemma leftmost_None:
  assumes "\<And>s. \<not> list_ex isdecimal s \<Longrightarrow> p s = None"
  shows "\<not> list_ex isdecimal m \<Longrightarrow> leftmost p m = None"
  using assms by (induction m) auto

lemma leftmost_1_None: "\<not> list_ex isdecimal m \<Longrightarrow> leftmost money_pattern_1 m = None"
  by (rule leftmost_None) (rule money_pattern_1_None)

lemma leftmost_2_None: "\<not> list_ex isdecimal m \<Longrightarrow> leftmost money_pattern_2 m = None"
  by (rule leftmost_None) (rule money_pattern_2_None)

lemma leftmost_3_None: "\<not> list_ex isdecimal m \<Longrightarrow> leftmost money_pattern_3 m = None"
  by (rule leftmost_None) (rule money_pattern_3_None)

lemma leftmost_1_Some: "list_ex isdecimal m \<Longrightarrow> leftmost money_pattern_1 m \<noteq> None"
proof (induction m)
  case Nil
  then show ?case by simp
next
  case (Cons c cs)
  show ?case
  proof (cases "isdecimal c")
    case True
    then have "money_pattern_1 (c # cs) \<noteq> None" by (rule money_pattern_1_decimal_head)
    then show ?thesis by (auto split: option.splits)
  next
    case False
    with Cons.prems have "list_ex isdecimal cs" by simp
    then have "leftmost money_pattern_1 cs \<noteq> None" by (rule Cons.IH)
    then show ?thesis by (auto split: option.splits)
  qed
qed

lemma leftmost_money_pattern_1: "leftmost money_pattern_1 m \<noteq> None \<longleftrightarrow> list_ex isdecimal m"
  using leftmost_1_None [of m] leftmost_1_Some [of m] by (cases "list_ex isdecimal m") simp_all

lemma leftmost_parses:
  assumes "p \<in> set money_patterns" "leftmost p m = Some g"
  shows "py_float (replace_comma g) \<noteq> None"
proof -
  from leftmost_suffix [OF assms(2)] obtain i r where "p (drop i m) = Some (g, r)" by blast
  then show ?thesis by (rule money_patterns_parse [OF assms(1)])
qed

lemma extract_amount_from_leftmost:
  "extract_amount_from (p # ps) m =
     (case leftmost p m of
        None \<Rightarrow> extract_amount_from ps m
      | Some g \<Rightarrow> (case py_float (replace_comma g) of
                     Some a \<Rightarrow> Some a | None \<Rightarrow> extract_amount_from ps m))"
proof (cases "findall p m")
  case Nil
  then have "leftmost p m = None" using findall_leftmost [of p m] by simp
  with Nil show ?thesis by simp
next
  case (Cons g gs)
  then have "leftmost p m = Some g" using findall_leftmost [of p m] by simp
  with Cons show ?thesis by simp
qed

lemma extract_amount_from_spec:
  assumes "set ps \<subseteq> set money_patterns"
  shows "extract_amount_from ps m =
     (case find (\<lambda>p. leftmost p m \<noteq> None) ps of
        None \<Rightarrow> None
      | Some p \<Rightarrow> (case leftmost p m of None \<Rightarrow> None | Some g \<Rightarrow> py_float (replace_comma g)))"
  using assms
proof (induction ps)
  case Nil
  then show ?case by simp
next
  case (Cons p ps)
  from Cons.prems have sub: "set ps \<subseteq> set money_patterns" and p: "p \<in> set money_patterns"
    by simp_all
  note IH = Cons.IH [OF sub]
  show ?case
  proof (cases "leftmost p m")
    case None
    then have "extract_amount_from (p # ps) m = extract_amount_from ps m"
      by (simp add: extract_amount_from_leftmost del: extract_amount_from.simps)
    with None IH show ?thesis by simp
  next
    case (Some g)
    from leftmost_parses [OF p Some] obtain a where a: "py_float (replace_comma g) = Some a"
      by auto
    with Some have "extract_amount_from (p # ps) m = Some a"
      by (simp add: extract_amount_from_leftmost del: extract_amount_from.simps)
    with Some a show ?thesis by simp
  qed
qed

lemma extract_amount_spec: "extract_amount m = amount_spec m"
  by (simp add: extract_amount_def amount_spec_def extract_amount_from_spec)

lemma extract_amount_first_pattern:
  "extract_amount m = extract_amount_from [money_pattern_1] m"
proof (cases "list_ex isdecimal m")
  case True
  then obtain g where g: "leftmost money_pattern_1 m = Some g"
    using leftmost_money_pattern_1 [of m] by auto
  have "money_pattern_1 \<in> set money_patterns" by (simp add: money_patterns_def)
  from leftmost_parses [OF this g] obtain a where "py_float (replace_comma g) = Some a" by auto
  with g show ?thesis
    by (simp add: extract_amount_def money_patterns_def extract_amount_from_leftmost del: extract_amount_from.simps(2))
next
  case False
  then have "leftmost money_pattern_1 m = None" "leftmost money_pattern_2 m = None"
    "leftmost money_pattern_3 m = None"
    by (simp_all add: leftmost_1_None leftmost_2_None leftmost_3_None)
  then show ?thesis
    by (simp add: extract_amount_def money_patterns_def extract_amount_from_leftmost del: extract_amount_from.simps(2))
qed

lemma extract_amount_Some_iff: "extract_amount m \<noteq> None \<longleftrightarrow> list_ex isdecimal m"
proof (cases "list_ex isdecimal m")
  case True
  then obtain g where g: "leftmost money_pattern_1 m = Some g"
    using leftmost_money_pattern_1 [of m] by auto
  have "money_pattern_1 \<in> set money_patterns" by (simp add: money_patterns_def)
  from leftmost_parses [OF this g] obtain a where "py_float (replace_comma g) = Some a" by auto
  with g True show ?thesis
    by (simp add: extract_amount_first_pattern extract_amount_from_leftmost del: extract_amount_from.simps(2))
next
  case False
  then have "leftmost money_pattern_1 m = None"
    using leftmost_money_pattern_1 [of m] by auto
  with False show ?thesis
    by (simp add: extract_amount_first_pattern extract_amount_from_leftmost del: extract_amount_from.simps(2))
qed

section \<open>Properties of amount extraction\<close>

lemmas pattern_defs =
  digits1_def numeral_group_def money_pattern_1_def money_pattern_2_def money_pattern_3_def
  money_patterns_def ci_eq_def lower_cp_def isspace_def opt_ci_def isdecimal_small

lemmas float_defs = py_float_def replace_comma_def digits_value_def digit_value_small

lemmas table_defs =
  report_keywords_def expense_keywords_def u_def a_acute_def a_tilde_def c_cedil_def
  e_acute_def e_circ_def i_acute_def o_acute_def o_circ_def u_acute_def

text \<open>Every group that \<open>findall\<close> returns is the group of a match.\<close>

lemma findall_groups:
  "g \<in> set (findall p m) \<Longrightarrow> \<exists>s r. p s = Some (g, r)"
proof (induction p m rule: findall.induct)
  case (1 p)
  then obtain r where "p [] = Some (g, r)" by (cases "p []") auto
  then show ?case by (intro exI [of _ "[]"] exI [of _ r])
next
  case (2 p c cs)
  show ?case
  proof (cases "p (c # cs)")
    case None
    with 2 show ?thesis by simp
  next
    case (Some a)
    obtain g' rest where a: "a = (g', rest)" by (cases a)
    from "2.prems" Some a
    have "g = g' \<or> g \<in> set (findall p (if length rest \<le> length cs then rest else cs))"
      by simp
    then show ?thesis
    proof
      assume "g = g'"
      with Some a have "p (c # cs) = Some (g, rest)" by simp
      then show ?thesis by (intro exI [of _ "c # cs"] exI [of _ rest])
    next
      assume "g \<in> set (findall p (if length rest \<le> length cs then rest else cs))"
      with "2.IH"(2) [OF Some a [symmetric]] show ?thesis by simp
    qed
  qed
qed

lemma findall_money_pattern_1_parse:
  "list_all (\<lambda>g. py_float (replace_comma g) \<noteq> None) (findall money_pattern_1 m)"
  unfolding list_all_iff
proof
  fix g assume "g \<in> set (findall money_pattern_1 m)"
  from findall_groups [OF this] obtain s r where "money_pattern_1 s = Some (g, r)" by auto
  then show "py_float (replace_comma g) \<noteq> None" by (rule money_pattern_1_parses)
qed

lemma amount_roupas: "amount_spec msg_roupas = Some 85.5"
  by (simp add: amount_spec_def msg_roupas_def u_def pattern_defs float_defs)

lemma amount_two_numbers: "amount_spec (u ''paguei 50 de 100'') = Some 50"
  by (simp add: amount_spec_def u_def pattern_defs float_defs)

text \<open>
  C2: amount extraction is the amount of the specification: the three pattern families in
  order, the first family with a match wins, the group of its match at the earliest
  position is parsed (for every pattern, the group that \<open>leftmost\<close> gives is the group of a
  match at a position before which the pattern matches nowhere), and the comma is
  replaced by a point before parsing. The normalized text \<^verbatim>\<open>comprei roupas por r$ 85,50\<close>
  yields 85.5.
\<close>

theorem extract_amount_first_family_earliest_match:
  "extract_amount m = amount_spec m \<and>
   (\<forall>p g. leftmost p m = Some g \<longrightarrow>
      (\<exists>i r. i \<le> length m \<and> p (drop i m) = Some (g, r) \<and> (\<forall>j < i. p (drop j m) = None))) \<and>
   extract_amount msg_roupas = Some 85.5"
proof (intro conjI allI impI)
  show "extract_amount m = amount_spec m" by (rule extract_amount_spec)
next
  fix p g assume "leftmost p m = Some g"
  then show "\<exists>i r. i \<le> length m \<and> p (drop i m) = Some (g, r) \<and> (\<forall>j < i. p (drop j m) = None)"
    by (rule leftmost_suffix)
next
  show "extract_amount msg_roupas = Some 85.5"
    by (simp only: extract_amount_spec amount_roupas)
qed

theorem extract_amount_first_family_earliest_match_witness:
  "extract_amount (u ''paguei 50 de 100'') = Some 50 \<and>
   leftmost money_pattern_1 (u ''paguei 50 de 100'') = Some (u ''50'') \<and>
   money_pattern_1 (drop 7 (u ''paguei 50 de 100'')) = Some (u ''50'', u '' de 100'')"
  using extract_amount_first_family_earliest_match [of "u ''paguei 50 de 100''"]
  by (simp add: amount_two_numbers) (simp add: u_def pattern_defs)

text \<open>
  C10: amount extraction returns a value exactly when the text holds a decimal digit (a
  code point of the class \<^verbatim>\<open>\d\<close>); the result is the one that the first pattern alone
  gives, so the second and the third pattern never decide it; and every group that the
  first pattern finds parses after the comma is replaced.
\<close>

theorem extract_amount_iff_decimal_digit:
  "(extract_amount m \<noteq> None) = list_ex isdecimal m \<and>
   extract_amount m = extract_amount_from [money_pattern_1] m \<and>
   list_all (\<lambda>g. py_float (replace_comma g) \<noteq> None) (findall money_pattern_1 m)"
  using extract_amount_Some_iff [of m] extract_amount_first_pattern [of m]
    findall_money_pattern_1_parse [of m]
  by (intro conjI)

text \<open>The digits need not be ASCII: the Arabic-Indic digits three and zero give 30.\<close>

lemma extract_amount_arabic_indic: "extract_amount [1635, 1632] = Some 30"
proof -
  have d: "isdecimal 1635" "isdecimal 1632" "digit_value 1635 = 3" "digit_value 1632 = 0"
    by (simp_all add: isdecimal_def digit_value_def decimal_blocks_def in_block_def)
  have "amount_spec [1635, 1632] = Some 30"
    using d by (simp add: amount_spec_def money_patterns_def money_pattern_1_def numeral_group_def
        digits1_def py_float_def replace_comma_def digits_value_def)
  then show ?thesis by (simp only: extract_amount_spec)
qed

section \<open>Properties of intent classification\<close>

text \<open>\<open>str_in\<close> is the substring test.\<close>

lemma starts_with_iff: "starts_with k s \<longleftrightarrow> (\<exists>post. s = k @ post)"
  by (induction k s rule: starts_with.induct) auto

lemma str_in_iff: "str_in k m \<longleftrightarrow> (\<exists>pre post. m = pre @ k @ post)"
proof (induction m)
  case Nil
  then show ?case by auto
next
  case (Cons c cs)
  show ?case
  proof
    assume "str_in k (c # cs)"
    then consider "starts_with k (c # cs)" | "str_in k cs" by auto
    then show "\<exists>pre post. c # cs = pre @ k @ post"
    proof cases
      case 1
      then obtain post where "c # cs = k @ post" by (auto simp: starts_with_iff)
      then have "c # cs = [] @ k @ post" by simp
      then show ?thesis by (rule exI [of _ "[]", OF exI])
    next
      case 2
      with Cons.IH obtain pre post where "cs = pre @ k @ post" by auto
      then have "c # cs = (c # pre) @ k @ post" by simp
      then show ?thesis by (rule exI [of _ "c # pre", OF exI])
    qed
  next
    assume "\<exists>pre post. c # cs = pre @ k @ post"
    then obtain pre post where eq: "c # cs = pre @ k @ post" by auto
    show "str_in k (c # cs)"
    proof (cases pre)
      case Nil
      with eq have "starts_with k (c # cs)" by (auto simp: starts_with_iff)
      then show ?thesis by simp
    next
      case (Cons a pre')
      with eq have "cs = pre' @ k @ post" by simp
      then have "\<exists>pre post. cs = pre @ k @ post" by (rule exI [of _ pre', OF exI])
      with Cons.IH have "str_in k cs" by simp
      then show ?thesis by simp
    qed
  qed
qed

lemma any_keyword_in_iff: "any_keyword_in ks m \<longleftrightarrow> list_ex (\<lambda>k. str_in k m) ks"
  by (induction ks) auto

lemma identify_message_type_eq:
  "identify_message_type m =
     (if list_ex (\<lambda>k. str_in k m) report_keywords then Report
      else if list_ex (\<lambda>k. str_in k m) expense_keywords then Expense
      else (case extract_amount m of
              Some a \<Rightarrow> if a \<noteq> 0 then Expense else Unknown
            | None \<Rightarrow> Unknown))"
  by (simp add: identify_message_type_def any_keyword_in_iff truthy_amount_def
      split: option.splits)

text \<open>
  C1, as the code has it: on every text the intent is Report when a report keyword occurs
  in the text; otherwise Expense when an expense keyword occurs; otherwise Expense when
  amount extraction yields an amount other than zero; otherwise Unknown, also when the
  extracted amount is zero.
\<close>

theorem identify_message_type_cascade:
  "identify_message_type m =
     (if list_ex (\<lambda>k. str_in k m) report_keywords then Report
      else if list_ex (\<lambda>k. str_in k m) expense_keywords then Expense
      else (case extract_amount m of
              Some a \<Rightarrow> if a \<noteq> 0 then Expense else Unknown
            | None \<Rightarrow> Unknown))"
  by (rule identify_message_type_eq)

lemma amount_zero: "amount_spec (u ''0'') = Some 0"
  by (simp add: amount_spec_def u_def pattern_defs float_defs)

text \<open>
  C1 as stated fails on the text \<^verbatim>\<open>0\<close>: no keyword occurs in it, amount extraction succeeds
  on it with the amount 0, and the intent is Unknown, not Expense.
\<close>

theorem identify_message_type_counterexample:
  "extract_amount (u ''0'') = Some 0 \<and>
   \<not> list_ex (\<lambda>k. str_in k (u ''0'')) report_keywords \<and>
   \<not> list_ex (\<lambda>k. str_in k (u ''0'')) expense_keywords \<and>
   identify_message_type (u ''0'') = Unknown"
proof (intro conjI)
  show a: "extract_amount (u ''0'') = Some 0" by (simp only: extract_amount_spec amount_zero)
  show r: "\<not> list_ex (\<lambda>k. str_in k (u ''0'')) report_keywords" by (simp add: table_defs)
  show e: "\<not> list_ex (\<lambda>k. str_in k (u ''0'')) expense_keywords" by (simp add: table_defs)
  show "identify_message_type (u ''0'') = Unknown"
    using a r e
    by (simp add: identify_message_type_def any_keyword_in_iff truthy_amount_def)
qed

section \<open>Properties of category extraction\<close>

lemmas name_defs =
  cat_alimentacao_def cat_transporte_def cat_combustivel_def cat_saude_def cat_educacao_def
  cat_lazer_def cat_casa_def cat_roupas_def cat_outros_def

text \<open>The first loop returns the first category of the table of which a trigger occurs.\<close>

lemma category_by_keyword_find:
  "category_by_keyword t m =
     map_option fst (find (\<lambda>(c, ks). list_ex (\<lambda>k. str_in k m) ks) t)"
  by (induction t) (auto simp: any_keyword_in_iff)

lemma extract_category_find:
  "extract_category nlp m =
     (case find (\<lambda>(c, ks). list_ex (\<lambda>k. str_in k m) ks) category_mapping of
        Some (c, ks) \<Rightarrow> c
      | None \<Rightarrow> (case category_by_tokens (nlp m) of Some c \<Rightarrow> c | None \<Rightarrow> cat_outros))"
  by (simp add: extract_category_def category_by_keyword_find split: option.splits)

lemma shared_trigger:
  assumes "str_in cat_combustivel m"
  shows "category_by_keyword category_mapping m = Some cat_alimentacao \<or>
         category_by_keyword category_mapping m = Some cat_transporte"
  using assms by (simp add: category_mapping_def cat_combustivel_def)

lemma category_by_keyword_first:
  assumes "k \<in> set (case map_of t c of Some ks \<Rightarrow> ks | None \<Rightarrow> [])" "str_in k m"
    and "no_trigger_in (takeWhile (\<lambda>(c', ks'). c' \<noteq> c) t) m"
  shows "category_by_keyword t m = Some c"
  using assms
proof (induction t)
  case Nil
  then show ?case by simp
next
  case (Cons e t)
  obtain c' ks' where e: "e = (c', ks')" by (cases e)
  show ?case
  proof (cases "c' = c")
    case True
    with Cons.prems(1) e have "k \<in> set ks'" by simp
    with Cons.prems(2) have "any_keyword_in ks' m"
      by (auto simp: any_keyword_in_iff list_ex_iff)
    with True e show ?thesis by simp
  next
    case False
    with Cons.prems(3) e have no: "\<not> any_keyword_in ks' m"
      and rest: "no_trigger_in (takeWhile (\<lambda>(c', ks'). c' \<noteq> c) t) m"
      by (auto simp: no_trigger_in_def any_keyword_in_iff list_ex_iff list_all_iff)
    from Cons.prems(1) False e
    have "k \<in> set (case map_of t c of Some ks \<Rightarrow> ks | None \<Rightarrow> [])" by simp
    from Cons.IH [OF this Cons.prems(2) rest] no e show ?thesis by simp
  qed
qed

text \<open>
  C6, as the code has it: when two different triggers of a category of the table both
  occur in a message, and no trigger of a category declared earlier in the table occurs in
  it, category extraction returns that category, wherever in the message the triggers
  stand.
\<close>

theorem extract_category_declaration_order:
  assumes "k1 \<in> set (triggers c)" "k2 \<in> set (triggers c)" "k1 \<noteq> k2"
    and "str_in k1 m" "str_in k2 m"
    and "no_trigger_in (declared_before c) m"
  shows "extract_category nlp m = c"
proof -
  from assms(1)
  have a: "k1 \<in> set (case map_of category_mapping c of Some ks \<Rightarrow> ks | None \<Rightarrow> [])"
    by (simp add: triggers_def)
  from assms(6)
  have b: "no_trigger_in (takeWhile (\<lambda>(c', ks'). c' \<noteq> c) category_mapping) m"
    by (simp add: declared_before_def)
  have "category_by_keyword category_mapping m = Some c"
    by (rule category_by_keyword_first [OF a assms(4) b])
  then show ?thesis by (simp add: extract_category_def)
qed

lemma triggers_transporte:
  "triggers cat_transporte =
     [u ''transporte'', u ''uber'', u ''taxi'', [o_circ] @ u ''nibus'', u ''onibus'',
      u ''metro'', u ''metr'' @ [o_circ], u ''trem'', u ''passagem'', u ''viagem'',
      u ''combust'' @ [i_acute] @ u ''vel'', u ''combustivel'', u ''gasolina'',
      [a_acute] @ u ''lcool'', u ''alcool'', u ''diesel'', u ''posto'']"
  by (simp add: triggers_def category_mapping_def name_defs table_defs)

lemma before_transporte_taxi_uber:
  "no_trigger_in (declared_before cat_transporte) (u ''taxi e uber'')"
  "no_trigger_in (declared_before cat_transporte) (u ''uber e taxi'')"
  by (simp_all add: declared_before_def no_trigger_in_def category_mapping_def name_defs table_defs)

theorem extract_category_declaration_order_witness:
  "extract_category no_tagger (u ''taxi e uber'') = cat_transporte \<and>
   extract_category no_tagger (u ''uber e taxi'') = cat_transporte"
  using extract_category_declaration_order
      [of "u ''uber''" cat_transporte "u ''taxi''" "u ''taxi e uber''" no_tagger]
    extract_category_declaration_order
      [of "u ''uber''" cat_transporte "u ''taxi''" "u ''uber e taxi''" no_tagger]
    before_transporte_taxi_uber
  by (simp add: triggers_transporte) (simp add: table_defs)

text \<open>
  C6 as stated fails: \<^verbatim>\<open>uber\<close> and \<^verbatim>\<open>taxi\<close> are triggers of the category \<^verbatim>\<open>transporte\<close>
  and both occur in the message \<^verbatim>\<open>uber taxi comida\<close>, yet extraction returns the category
  declared first in the table, of which \<^verbatim>\<open>comida\<close> is a trigger.
\<close>

theorem extract_category_counterexample:
  "u ''uber'' \<in> set (triggers cat_transporte) \<and>
   u ''taxi'' \<in> set (triggers cat_transporte) \<and>
   str_in (u ''uber'') (u ''uber taxi comida'') \<and>
   str_in (u ''taxi'') (u ''uber taxi comida'') \<and>
   extract_category no_tagger (u ''uber taxi comida'') = cat_alimentacao \<and>
   cat_alimentacao \<noteq> cat_transporte"
proof (intro conjI)
  show "u ''uber'' \<in> set (triggers cat_transporte)"
    by (simp add: triggers_transporte)
  show "u ''taxi'' \<in> set (triggers cat_transporte)"
    by (simp add: triggers_transporte)
  show "str_in (u ''uber'') (u ''uber taxi comida'')" by (simp add: u_def)
  show "str_in (u ''taxi'') (u ''uber taxi comida'')" by (simp add: u_def)
  show "extract_category no_tagger (u ''uber taxi comida'') = cat_alimentacao"
    by (simp add: extract_category_def category_mapping_def table_defs)
  show "cat_alimentacao \<noteq> cat_transporte" by (simp add: name_defs table_defs)
qed

section \<open>The example messages, processed\<close>

lemmas norm_defs = strip_def lower_def lower_cp_def isspace_def

lemma norm_combustivel:
  "strip (lower msg_combustivel) = [99, 111, 109, 98, 117, 115, 116, 237, 118, 101, 108, 32, 49, 50, 48]"
  by (simp add: msg_combustivel_def norm_defs table_defs)

lemma type_combustivel: "identify_message_type (strip (lower msg_combustivel)) = Expense"
  unfolding norm_combustivel
  by (simp add: identify_message_type_eq extract_amount_spec amount_spec_def table_defs
      pattern_defs float_defs)

lemma amount_combustivel: "extract_amount (strip (lower msg_combustivel)) = Some 120"
  unfolding norm_combustivel
  by (simp add: extract_amount_spec amount_spec_def pattern_defs float_defs)

lemma category_combustivel:
  "category_by_keyword category_mapping (strip (lower msg_combustivel)) = Some cat_transporte"
  unfolding norm_combustivel
  by (simp add: category_mapping_def table_defs)

lemma process_combustivel:
  "res_type (process_message nlp w now msg_combustivel) = Expense \<and>
   res_amount (process_message nlp w now msg_combustivel) = Some (Some 120) \<and>
   res_category (process_message nlp w now msg_combustivel) = Some cat_transporte"
  by (simp add: process_message_def Let_def type_combustivel amount_combustivel
      category_combustivel extract_expense_data_def extract_category_def)

text \<open>
  C3: category extraction returns the first category, in the order of the table, of which
  a trigger occurs in the text (and goes on to the tagger and the sentinel only when there
  is none). The trigger \<open>cat_combustivel\<close> is in the lists of the categories
  \<open>cat_transporte\<close> and \<open>cat_combustivel\<close>; a text in which it occurs gets
  \<open>cat_transporte\<close>, declared first, unless a trigger of the still earlier
  \<open>cat_alimentacao\<close> occurs. Processing \<open>msg_combustivel\<close> yields the intent Expense, the
  amount 120 and the category \<open>cat_transporte\<close>.
\<close>

theorem extract_category_first_declared:
  "extract_category nlp m =
     (case find (\<lambda>(c, ks). list_ex (\<lambda>k. str_in k m) ks) category_mapping of
        Some (c, ks) \<Rightarrow> c
      | None \<Rightarrow> (case category_by_tokens (nlp m) of Some c \<Rightarrow> c | None \<Rightarrow> cat_outros)) \<and>
   cat_combustivel \<in> set (triggers cat_transporte) \<and>
   cat_combustivel \<in> set (triggers cat_combustivel) \<and>
   (str_in cat_combustivel m \<longrightarrow>
      extract_category nlp m = cat_alimentacao \<or> extract_category nlp m = cat_transporte) \<and>
   res_type (process_message nlp w now msg_combustivel) = Expense \<and>
   res_amount (process_message nlp w now msg_combustivel) = Some (Some 120) \<and>
   res_category (process_message nlp w now msg_combustivel) = Some cat_transporte"
proof (intro conjI impI)
  show "extract_category nlp m =
     (case find (\<lambda>(c, ks). list_ex (\<lambda>k. str_in k m) ks) category_mapping of
        Some (c, ks) \<Rightarrow> c
      | None \<Rightarrow> (case category_by_tokens (nlp m) of Some c \<Rightarrow> c | None \<Rightarrow> cat_outros))"
    by (rule extract_category_find)
  show "cat_combustivel \<in> set (triggers cat_transporte)"
    by (simp add: triggers_def category_mapping_def name_defs table_defs)
  show "cat_combustivel \<in> set (triggers cat_combustivel)"
    by (simp add: triggers_def category_mapping_def name_defs table_defs)
next
  assume "str_in cat_combustivel m"
  from shared_trigger [OF this]
  show "extract_category nlp m = cat_alimentacao \<or> extract_category nlp m = cat_transporte"
    by (auto simp: extract_category_def)
next
  show "res_type (process_message nlp w now msg_combustivel) = Expense"
    "res_amount (process_message nlp w now msg_combustivel) = Some (Some 120)"
    "res_category (process_message nlp w now msg_combustivel) = Some cat_transporte"
    using process_combustivel [of nlp w now] by simp_all
qed

theorem extract_category_first_declared_witness:
  "str_in cat_combustivel (strip (lower msg_combustivel)) \<and>
   extract_category no_tagger (strip (lower msg_combustivel)) = cat_transporte \<and>
   cat_transporte \<noteq> cat_combustivel"
  using extract_category_first_declared [of no_tagger "strip (lower msg_combustivel)"]
  by (simp add: norm_combustivel extract_category_def category_mapping_def name_defs table_defs)

section \<open>Properties of description extraction\<close>

text \<open>
  C8: description extraction never returns the empty string: when nothing is left of the
  text after the substitutions, the collapsing of white space and the trimming, the
  placeholder \<open>unspecified\<close> is returned, and otherwise what is left.
\<close>

theorem extract_description_never_empty:
  "extract_description w m \<noteq> [] \<and>
   extract_description w m =
     (if strip (cleaned w m) = [] then unspecified else strip (cleaned w m))"
  by (simp add: extract_description_def Let_def unspecified_def u_def)

text \<open>Two descriptions, with the word characters of the code points below 256.\<close>

lemmas sub_defs =
  cleaned_def consuming_def bounded_word_def r_at_end_def no_context_def word_boundary_def
  is_word_def first_cp_def latin1_word_def split_ws_def common_words_def

lemma description_placeholder: "extract_description latin1_word (u ''gastei 50'') = unspecified"
  by (simp add: extract_description_def sub_defs table_defs pattern_defs norm_defs unspecified_def)

lemma description_roupas: "extract_description latin1_word msg_roupas = u ''roupas por''"
  by (simp add: extract_description_def msg_roupas_def sub_defs table_defs pattern_defs norm_defs
      unspecified_def)

section \<open>Properties of period extraction\<close>

lemma extract_period_cascade:
  "extract_period m =
     (if str_in (u ''hoje'') m then Today
      else if str_in (u ''ontem'') m then Yesterday
      else if str_in (u ''semana'') m then Week
      else if str_in (u ''m'' @ [e_circ] @ u ''s'') m then Month
      else if str_in (u ''mes'') m then Month
      else if str_in (u ''ano'') m then Year
      else if str_in (u ''total'') m then All
      else Month)"
  by (simp add: extract_period_def period_keywords_def)

lemma norm_relatorio:
  "strip (lower msg_relatorio) =
     [114, 101, 108, 97, 116, 243, 114, 105, 111, 32, 97, 108, 105, 109, 101, 110, 116, 97, 231,
      227, 111]"
  by (simp add: msg_relatorio_def norm_defs table_defs)

lemma norm_balanco:
  "strip (lower msg_balanco) =
     [98, 97, 108, 97, 110, 231, 111, 32, 100, 97, 32, 115, 101, 109, 97, 110, 97]"
  by (simp add: msg_balanco_def norm_defs table_defs)

lemma type_relatorio: "identify_message_type (strip (lower msg_relatorio)) = Report"
  unfolding norm_relatorio by (simp add: identify_message_type_eq table_defs)

lemma type_balanco: "identify_message_type (strip (lower msg_balanco)) = Report"
  unfolding norm_balanco by (simp add: identify_message_type_eq table_defs)

lemma period_relatorio: "extract_period (strip (lower msg_relatorio)) = Month"
  unfolding norm_relatorio by (simp add: extract_period_cascade table_defs)

lemma period_balanco: "extract_period (strip (lower msg_balanco)) = Week"
  unfolding norm_balanco by (simp add: extract_period_cascade table_defs)

lemma category_relatorio:
  "category_by_keyword category_mapping (strip (lower msg_relatorio)) = Some cat_alimentacao"
  unfolding norm_relatorio by (simp add: category_mapping_def table_defs)

lemma process_relatorio:
  "res_type (process_message nlp w now msg_relatorio) = Report \<and>
   res_category (process_message nlp w now msg_relatorio) = Some cat_alimentacao \<and>
   res_period (process_message nlp w now msg_relatorio) = Some Month"
  by (simp add: process_message_def Let_def type_relatorio period_relatorio category_relatorio
      extract_report_data_def extract_category_def)

lemma process_balanco:
  "res_type (process_message nlp w now msg_balanco) = Report \<and>
   res_period (process_message nlp w now msg_balanco) = Some Week"
  by (simp add: process_message_def Let_def type_balanco period_balanco extract_report_data_def)

text \<open>
  C9: period extraction checks the keywords of \<open>period_keywords\<close> in their order (\<^verbatim>\<open>hoje\<close>,
  \<^verbatim>\<open>ontem\<close>, \<^verbatim>\<open>semana\<close>, \<^verbatim>\<open>mes\<close> with and without the circumflex, \<^verbatim>\<open>ano\<close>, \<^verbatim>\<open>total\<close>);
  the first that occurs in the text gives the period, and the period is the month when
  none occurs. Processing \<open>msg_relatorio\<close> yields a report of period month, and
  processing \<open>msg_balanco\<close> a report of period week.
\<close>

theorem extract_period_first_keyword:
  "extract_period m =
     (if str_in (u ''hoje'') m then Today
      else if str_in (u ''ontem'') m then Yesterday
      else if str_in (u ''semana'') m then Week
      else if str_in (u ''m'' @ [e_circ] @ u ''s'') m then Month
      else if str_in (u ''mes'') m then Month
      else if str_in (u ''ano'') m then Year
      else if str_in (u ''total'') m then All
      else Month) \<and>
   res_type (process_message nlp w now msg_relatorio) = Report \<and>
   res_period (process_message nlp w now msg_relatorio) = Some Month \<and>
   res_type (process_message nlp w now msg_balanco) = Report \<and>
   res_period (process_message nlp w now msg_balanco) = Some Week"
  using extract_period_cascade [of m] process_relatorio [of nlp w now]
    process_balanco [of nlp w now]
  by (intro conjI) simp_all

section \<open>Properties of the confidence score\<close>

text \<open>
  C4: for every optional amount, optional category and description, the score that
  \<^verbatim>\<open>_calculate_confidence\<close> returns is the clamped sum of the specification.
\<close>

theorem calculate_confidence_is_score_spec:
  "calculate_confidence amount category description = score_spec amount category description"
  by (simp add: calculate_confidence_def score_spec_def Let_def)

text \<open>
  C7: with category and description fixed, a present amount never scores less than an
  absent one; with no category and no description the present amount adds exactly 0.4;
  and no score exceeds 1.
\<close>

theorem confidence_monotone_in_amount:
  "calculate_confidence None c d \<le> calculate_confidence (Some a) c d \<and>
   calculate_confidence (Some a) None [] = calculate_confidence None None [] + 4 / 10 \<and>
   calculate_confidence x c d \<le> 1"
  by (simp add: calculate_confidence_def Let_def truthy_opt_def)

section \<open>Properties of validation\<close>

lemma all_dropWhile: "(\<forall>x\<in>set (dropWhile P xs). P x) \<longleftrightarrow> (\<forall>x\<in>set xs. P x)"
  by (induction xs) auto

lemma strip_empty_iff: "strip m = [] \<longleftrightarrow> list_all isspace m"
  by (simp add: strip_def all_dropWhile list_all_iff)

text \<open>
  C5, as the code has it: validation succeeds exactly when the trimmed text is not empty
  and the text has at most 500 code points; it fails with \<open>EmptyInput\<close> exactly when the
  trimmed text is empty, whatever the length of the text; it fails with \<open>TooLong\<close> exactly
  when the text has more than 500 code points and its trimmed text is not empty. The
  trimmed text is empty exactly when the text is empty or made of white space only.
\<close>

theorem validate_message_cases:
  "(validate_message m = Inr () \<longleftrightarrow> strip m \<noteq> [] \<and> length m \<le> 500) \<and>
   (validate_message m = Inl EmptyInput \<longleftrightarrow> strip m = []) \<and>
   (validate_message m = Inl TooLong \<longleftrightarrow> strip m \<noteq> [] \<and> length m > 500) \<and>
   (strip m = [] \<longleftrightarrow> list_all isspace m)"
  using strip_empty_iff [of m] by (auto simp add: validate_message_def)

theorem validate_message_cases_witness:
  "validate_message (u ''Gastei 50 reais'') = Inr () \<and>
   validate_message [] = Inl EmptyInput \<and>
   validate_message (replicate 501 (of_char CHR ''a'')) = Inl TooLong"
  using validate_message_cases [of "u ''Gastei 50 reais''"] validate_message_cases [of "[]"]
    validate_message_cases [of "replicate 501 (of_char CHR ''a'')"]
  by (simp add: u_def isspace_def list_all_iff strip_empty_iff)

text \<open>
  C5 as stated fails: a message of 501 spaces is longer than 500 code points, and
  validation fails on it with \<open>EmptyInput\<close>, not with \<open>TooLong\<close>.
\<close>

theorem validate_message_counterexample:
  "length (replicate 501 (32::nat)) > 500 \<and>
   validate_message (replicate 501 32) = Inl EmptyInput \<and>
   validate_message (replicate 501 32) \<noteq> Inl TooLong"
  by (simp add: validate_message_def strip_empty_iff list_all_iff isspace_def)

end
